theory Spec2Isabelle
  imports Main "HOL-Library.Monad_Syntax" "HOL-Library.Sublist"
begin

section \<open>The vcluster resource of the Terraform provider\<close>

text \<open>
  The theory embeds \<^verbatim>\<open>vcluster/resource_vcluster.go\<close>: the schema of the resource, the
  helper \<^verbatim>\<open>vclusterBaseArgs\<close> and the four lifecycle operations
  \<^verbatim>\<open>resourceVClusterCreate\<close>, \<^verbatim>\<open>resourceVClusterRead\<close>, \<^verbatim>\<open>resourceVClusterUpdate\<close> and
  \<^verbatim>\<open>resourceVClusterDelete\<close>.

  Go strings are byte strings and are modelled as \<open>string\<close>. A function that can panic (a
  failed type assertion \<^verbatim>\<open>x.(string)\<close>) returns an \<open>option\<close>, with \<open>None\<close> for the panic.
\<close>

subsection \<open>Values, schema and resource data\<close>

text \<open>
  \<^verbatim>\<open>time.Time\<close> is a struct of a wall clock reading, a second counter and a location
  pointer; \<^verbatim>\<open>==\<close> on it compares the three fields. Its zero value has all three zero.
\<close>

datatype Time = Time (wall: nat) (ext: int) (loc: "nat option")

definition Time_zero :: Time where
  "Time_zero = Time 0 0 None"

text \<open>The dynamically typed values (\<^verbatim>\<open>interface{}\<close>) that the operations read and write.\<close>

datatype val = VNil | VString string | VBool bool | VList "string list" | VTime Time

datatype ValueType = TypeBool | TypeString | TypeList

text \<open>
  The field table of \<^verbatim>\<open>resourceVCluster\<close>: each key with its \<^verbatim>\<open>Type\<close> and whether it is
  \<^verbatim>\<open>Computed\<close>.
\<close>

definition Schema :: "(string \<times> ValueType \<times> bool) list" where
  "Schema =
    [(''name'', TypeString, False),
     (''distro'', TypeString, False),
     (''extra_values'', TypeList, False),
     (''chart'', TypeString, False),
     (''chart_version'', TypeString, False),
     (''chart_repo'', TypeString, False),
     (''local_chart_dir'', TypeString, False),
     (''kubernetes_version'', TypeString, False),
     (''create_namespace'', TypeBool, False),
     (''disable_ingress_sync'', TypeBool, False),
     (''expose'', TypeBool, False),
     (''expose_local'', TypeBool, False),
     (''isolate'', TypeBool, False),
     (''context'', TypeString, False),
     (''namespace'', TypeString, False),
     (''status'', TypeString, True),
     (''created'', TypeString, True)]"

definition schema_type :: "string \<Rightarrow> ValueType option" where
  "schema_type k = map_option fst (map_of Schema k)"

fun zero_value :: "ValueType \<Rightarrow> val" where
  "zero_value TypeBool = VBool False"
| "zero_value TypeString = VString []"
| "zero_value TypeList = VList []"

text \<open>
  \<^verbatim>\<open>schema.ResourceData\<close>: the tracked identifier (\<^verbatim>\<open>d.Id()\<close>, \<^verbatim>\<open>d.SetId\<close>) and the
  attributes that are set, by key. An attribute that the configuration leaves out has no
  entry.
\<close>

record ResourceData =
  ident :: string
  attrs :: "string \<rightharpoonup> val"

text \<open>
  \<^verbatim>\<open>d.Get(key)\<close> belongs to the plugin SDK. Its contract: it returns nil for a key that
  is not in the schema; for a key of the schema that is not set it returns the zero value
  of the key's type (\<^verbatim>\<open>""\<close>, \<^verbatim>\<open>false\<close>, the empty list), and otherwise the value.
\<close>

definition Get :: "ResourceData \<Rightarrow> string \<Rightarrow> val" where
  "Get d k =
     (case schema_type k of
        None \<Rightarrow> VNil
      | Some t \<Rightarrow> (case attrs d k of None \<Rightarrow> zero_value t | Some v \<Rightarrow> v))"

text \<open>The Go type of a value against the \<^verbatim>\<open>Type\<close> of a schema entry.\<close>

fun has_type :: "val \<Rightarrow> ValueType \<Rightarrow> bool" where
  "has_type (VString _) TypeString = True"
| "has_type (VBool _) TypeBool = True"
| "has_type (VList _) TypeList = True"
| "has_type _ _ = False"

text \<open>
  \<^verbatim>\<open>d.Set(key, value)\<close> belongs to the plugin SDK too. It checks the value against the
  schema: for a key that is not in the schema, or a value that is not of the Go type of
  the key's entry, it returns an error and stores nothing; otherwise it stores the value.
  In particular a \<^verbatim>\<open>time.Time\<close> is not accepted for an attribute of \<^verbatim>\<open>TypeString\<close>. The
  result is the record together with the error, \<open>None\<close> for \<^verbatim>\<open>nil\<close>. \<^verbatim>\<open>d.SetId\<close>
  replaces the identifier.
\<close>

datatype SetError = InvalidKey | WrongType

definition Set_attr :: "ResourceData \<Rightarrow> string \<Rightarrow> val \<Rightarrow> ResourceData \<times> SetError option" where
  "Set_attr d k v =
     (case schema_type k of
        None \<Rightarrow> (d, Some InvalidKey)
      | Some t \<Rightarrow>
          if has_type v t then (d\<lparr>attrs := (attrs d)(k \<mapsto> v)\<rparr>, None)
          else (d, Some WrongType))"

definition SetId :: "ResourceData \<Rightarrow> string \<Rightarrow> ResourceData" where
  "SetId d i = d\<lparr>ident := i\<rparr>"

text \<open>The type assertions \<^verbatim>\<open>x.(string)\<close> and \<^verbatim>\<open>x.(bool)\<close>; \<open>None\<close> is the panic.\<close>

fun assert_string :: "val \<Rightarrow> string option" where
  "assert_string (VString s) = Some s"
| "assert_string _ = None"

fun assert_bool :: "val \<Rightarrow> bool option" where
  "assert_bool (VBool b) = Some b"
| "assert_bool _ = None"

text \<open>
  The SDK hands every attribute over in the Go type of its schema entry. \<open>config_typed\<close>
  says so for the attributes that are not computed, which are the ones the operations
  read.
\<close>

definition typed_at :: "ResourceData \<Rightarrow> string \<times> ValueType \<times> bool \<Rightarrow> bool" where
  "typed_at d e =
     (case e of (k, t, computed) \<Rightarrow>
        computed \<or> (case attrs d k of None \<Rightarrow> True | Some v \<Rightarrow> has_type v t))"

definition config_typed :: "ResourceData \<Rightarrow> bool" where
  "config_typed d = list_all (typed_at d) Schema"

subsection \<open>Formatting\<close>

text \<open>\<^verbatim>\<open>%v\<close> of a bool, and \<^verbatim>\<open>strings.Join\<close>.\<close>

definition fmt_bool :: "bool \<Rightarrow> string" where
  "fmt_bool b = (if b then ''true'' else ''false'')"

fun Join :: "string list \<Rightarrow> string \<Rightarrow> string" where
  "Join [] sep = []"
| "Join [x] sep = x"
| "Join (x # y # ys) sep = x @ sep @ Join (y # ys) sep"

subsection \<open>Building the argument vectors\<close>

definition vclusterBaseArgs :: "ResourceData \<Rightarrow> string list \<Rightarrow> string list option" where
  "vclusterBaseArgs d args0 = do {
     args1 \<leftarrow> (let namespace = Get d ''namespace'' in
       if namespace \<noteq> VNil then do {
         s \<leftarrow> assert_string namespace;
         Some (if s \<noteq> [] then args0 @ [''--namespace'', s] else args0)
       } else Some args0);
     args2 \<leftarrow> (let context = Get d ''context'' in
       if context \<noteq> VNil then do {
         s \<leftarrow> assert_string context;
         Some (if s \<noteq> [] then args1 @ [''--context'', s] else args1)
       } else Some args1);
     Some args2
   }"

text \<open>
  The argument vector of \<^verbatim>\<open>resourceVClusterCreate\<close>, as it stands when
  \<^verbatim>\<open>exec.Command\<close> is called: the name, the base arguments, then one conditional
  append for each of the seven flags, in the order of the source.
\<close>

definition create_args :: "ResourceData \<Rightarrow> string list option" where
  "create_args d = do {
     vClusterName \<leftarrow> assert_string (Get d ''name'');
     args \<leftarrow> vclusterBaseArgs d [''create'', vClusterName, ''--connect=false''];
     args \<leftarrow> (let distro = Get d ''distro'' in
       if distro \<noteq> VNil then do {
         s \<leftarrow> assert_string distro;
         Some (if s \<noteq> [] then args @ [''--distro='' @ s] else args)
       } else Some args);
     args \<leftarrow> (let isolate = Get d ''isolate'' in
       if isolate \<noteq> VNil then do {
         b \<leftarrow> assert_bool isolate;
         Some (args @ [''--isolate='' @ fmt_bool b])
       } else Some args);
     args \<leftarrow> (let expose = Get d ''expose'' in
       if expose \<noteq> VNil then do {
         b \<leftarrow> assert_bool expose;
         Some (args @ [''--expose='' @ fmt_bool b])
       } else Some args);
     args \<leftarrow> (let exposeLocal = Get d ''expose_local'' in
       if exposeLocal \<noteq> VNil then do {
         b \<leftarrow> assert_bool exposeLocal;
         Some (args @ [''--expose-local='' @ fmt_bool b])
       } else Some args);
     args \<leftarrow> (let disableIngressSync = Get d ''disable_ingress_sync'' in
       if disableIngressSync \<noteq> VNil then do {
         b \<leftarrow> assert_bool disableIngressSync;
         Some (args @ [''--disable-ingress-sync='' @ fmt_bool b])
       } else Some args);
     args \<leftarrow> (let createNamespace = Get d ''create_namespace'' in
       if createNamespace \<noteq> VNil then do {
         b \<leftarrow> assert_bool createNamespace;
         Some (args @ [''--create-namespace='' @ fmt_bool b])
       } else Some args);
     args \<leftarrow> (let kubernetesVersion = Get d ''kubernetes_version'' in
       if kubernetesVersion \<noteq> VNil then do {
         s \<leftarrow> assert_string kubernetesVersion;
         Some (if s \<noteq> [] then args @ [''--kubernetes-version='' @ s] else args)
       } else Some args);
     Some args
   }"

definition read_args :: "ResourceData \<Rightarrow> string list option" where
  "read_args d = vclusterBaseArgs d [''list'', ''--output'', ''json'']"

definition delete_args :: "ResourceData \<Rightarrow> string list option" where
  "delete_args d = do {
     name \<leftarrow> assert_string (Get d ''name'');
     vclusterBaseArgs d [''delete'', name]
   }"

subsection \<open>The external process and the decoder\<close>

text \<open>
  \<^verbatim>\<open>exec.Command("vcluster", args...).CombinedOutput()\<close> is a parameter of the
  operations: it maps the argument vector to the combined output and the error, \<open>None\<close>
  for \<^verbatim>\<open>nil\<close>. So is \<^verbatim>\<open>json.Unmarshal\<close> into \<^verbatim>\<open>[]ListEntry\<close>: \<open>Inl\<close> carries the
  text of the decode error, \<open>Inr\<close> the decoded entries.
\<close>

type_synonym Exec = "string list \<Rightarrow> string \<times> string option"

datatype Severity = Error | Warning

record Diagnostic =
  Severity :: Severity
  Summary :: string
  Detail :: string

text \<open>\<^verbatim>\<open>diag.FromErr\<close>: one error diagnostic whose summary is the text of the error.\<close>

definition FromErr :: "string \<Rightarrow> Diagnostic list" where
  "FromErr e = [\<lparr>Severity = Error, Summary = e, Detail = []\<rparr>]"

record ListEntry =
  Name :: string
  Namespace :: string
  Status :: string
  Created :: Time
  Context :: string

type_synonym Unmarshal = "string \<Rightarrow> string + ListEntry list"

text \<open>The zero value \<^verbatim>\<open>ListEntry{}\<close>.\<close>

definition ListEntry_zero :: ListEntry where
  "ListEntry_zero =
     \<lparr>Name = [], Namespace = [], Status = [], Created = Time_zero, Context = []\<rparr>"

text \<open>
  What an operation leaves behind: the resource data, the argument vectors it ran the
  external tool with, and the diagnostics it returns (\<^verbatim>\<open>nil\<close> is the empty list).
\<close>

record Outcome =
  data :: ResourceData
  invoked :: "string list list"
  diags :: "Diagnostic list"

definition invocation_failure :: "string list \<Rightarrow> string \<Rightarrow> Diagnostic list" where
  "invocation_failure args output =
     [\<lparr>Severity = Error, Summary = ''vcluster '' @ Join args '' '', Detail = output\<rparr>]"

subsection \<open>The lifecycle operations\<close>

definition resourceVClusterCreate :: "Exec \<Rightarrow> ResourceData \<Rightarrow> Outcome option" where
  "resourceVClusterCreate run d = do {
     vClusterName \<leftarrow> assert_string (Get d ''name'');
     args \<leftarrow> create_args d;
     Some (case run args of
       (output, Some err) \<Rightarrow>
         \<lparr>data = d, invoked = [args], diags = invocation_failure args output\<rparr>
     | (output, None) \<Rightarrow>
         (let d1 = SetId d vClusterName;
              (d2, _) = Set_attr d1 ''name'' (VString vClusterName)
          in \<lparr>data = d2, invoked = [args], diags = []\<rparr>))
   }"

text \<open>
  Create and Read drop the error that \<^verbatim>\<open>d.Set\<close> returns: the second component of
  \<open>Set_attr\<close> is bound and not used.

  The loop of \<^verbatim>\<open>resourceVClusterRead\<close> over the decoded entries: \<open>resourceEntry\<close> starts
  as the zero value and is overwritten at every entry whose name is the identifier.
\<close>

fun range_entries :: "string \<Rightarrow> ListEntry list \<Rightarrow> ListEntry \<Rightarrow> ListEntry" where
  "range_entries i [] resourceEntry = resourceEntry"
| "range_entries i (entry # entries) resourceEntry =
     range_entries i entries (if Name entry = i then entry else resourceEntry)"

definition resourceVClusterRead :: "Exec \<Rightarrow> Unmarshal \<Rightarrow> ResourceData \<Rightarrow> Outcome option" where
  "resourceVClusterRead run unmarshal d = do {
     args \<leftarrow> read_args d;
     Some (case run args of
       (output, Some err) \<Rightarrow>
         \<lparr>data = d, invoked = [args], diags = invocation_failure args output\<rparr>
     | (output, None) \<Rightarrow>
         (case unmarshal output of
            Inl err \<Rightarrow> \<lparr>data = d, invoked = [args], diags = FromErr err\<rparr>
          | Inr entries \<Rightarrow>
              (let resourceEntry = range_entries (ident d) entries ListEntry_zero in
               if resourceEntry = ListEntry_zero
               then \<lparr>data = SetId d [], invoked = [args], diags = []\<rparr>
               else
                 (let (d1, _) = Set_attr d ''name'' (VString (Name resourceEntry));
                      (d2, _) = Set_attr d1 ''status'' (VString (Status resourceEntry));
                      (d3, _) = Set_attr d2 ''created'' (VTime (Created resourceEntry))
                  in \<lparr>data = d3, invoked = [args], diags = []\<rparr>))))
   }"

definition resourceVClusterUpdate :: "Exec \<Rightarrow> ResourceData \<Rightarrow> Outcome option" where
  "resourceVClusterUpdate run d = Some \<lparr>data = d, invoked = [], diags = []\<rparr>"

definition resourceVClusterDelete :: "Exec \<Rightarrow> ResourceData \<Rightarrow> Outcome option" where
  "resourceVClusterDelete run d = do {
     args \<leftarrow> delete_args d;
     Some (case run args of
       (output, Some err) \<Rightarrow>
         \<lparr>data = d, invoked = [args], diags = invocation_failure args output\<rparr>
     | (output, None) \<Rightarrow> \<lparr>data = d, invoked = [args], diags = []\<rparr>)
   }"

subsection \<open>The argument vectors in the words of the specification\<close>

text \<open>
  The definitions of this subsection are not functions of the source. They are the
  vocabulary of the statements below: what the specification says a vector consists of,
  to be compared with what the functions above compute.

  The value of a string or boolean field of the record, empty or false when the field is
  not set.
\<close>

definition field_string :: "ResourceData \<Rightarrow> string \<Rightarrow> string" where
  "field_string d k = (case attrs d k of Some (VString s) \<Rightarrow> s | _ \<Rightarrow> [])"

definition field_bool :: "ResourceData \<Rightarrow> string \<Rightarrow> bool" where
  "field_bool d k = (case attrs d k of Some (VBool b) \<Rightarrow> b | _ \<Rightarrow> False)"

text \<open>
  The targeting flags: \<^verbatim>\<open>--namespace <ns>\<close> when the namespace is not empty, then
  \<^verbatim>\<open>--context <ctx>\<close> when the context is not empty.
\<close>

definition targeting_flags :: "ResourceData \<Rightarrow> string list" where
  "targeting_flags d =
     (if field_string d ''namespace'' = [] then []
      else [''--namespace'', field_string d ''namespace'']) @
     (if field_string d ''context'' = [] then []
      else [''--context'', field_string d ''context''])"

text \<open>The flags that only Create has, in the order in which Create appends them.\<close>

definition create_flags :: "ResourceData \<Rightarrow> string list" where
  "create_flags d =
     (if field_string d ''distro'' = [] then []
      else [''--distro='' @ field_string d ''distro'']) @
     [''--isolate='' @ fmt_bool (field_bool d ''isolate''),
      ''--expose='' @ fmt_bool (field_bool d ''expose''),
      ''--expose-local='' @ fmt_bool (field_bool d ''expose_local''),
      ''--disable-ingress-sync='' @ fmt_bool (field_bool d ''disable_ingress_sync''),
      ''--create-namespace='' @ fmt_bool (field_bool d ''create_namespace'')] @
     (if field_string d ''kubernetes_version'' = [] then []
      else [''--kubernetes-version='' @ field_string d ''kubernetes_version''])"

text \<open>The boolean fields and the names of their flags.\<close>

definition bool_flags :: "(string \<times> string) list" where
  "bool_flags =
     [(''create_namespace'', ''--create-namespace''),
      (''disable_ingress_sync'', ''--disable-ingress-sync''),
      (''expose'', ''--expose''),
      (''expose_local'', ''--expose-local''),
      (''isolate'', ''--isolate'')]"

text \<open>
  The values that the vectors carry as tokens of their own, exactly as the record has
  them: the name, the namespace and the context.
\<close>

definition free_text :: "ResourceData \<Rightarrow> string list" where
  "free_text d =
     [field_string d ''name'', field_string d ''namespace'', field_string d ''context'']"

text \<open>
  A vector carries each targeting flag once when its value is not empty, directly followed
  by the value, and not at all when the value is empty.
\<close>

definition emits_targeting_once :: "ResourceData \<Rightarrow> string list \<Rightarrow> bool" where
  "emits_targeting_once d args \<longleftrightarrow>
     count_list args ''--namespace'' = (if field_string d ''namespace'' = [] then 0 else 1) \<and>
     (field_string d ''namespace'' \<noteq> [] \<longrightarrow>
        sublist [''--namespace'', field_string d ''namespace''] args) \<and>
     count_list args ''--context'' = (if field_string d ''context'' = [] then 0 else 1) \<and>
     (field_string d ''context'' \<noteq> [] \<longrightarrow>
        sublist [''--context'', field_string d ''context''] args)"

text \<open>
  The last entry, in the order of the output, whose name is the identifier; it is
  meaningful when there is such an entry.
\<close>

definition last_match :: "string \<Rightarrow> ListEntry list \<Rightarrow> ListEntry" where
  "last_match i entries = last (filter (\<lambda>e. Name e = i) entries)"

text \<open>
  The record with the name and the status of an entry written into it, and every other
  attribute, \<^verbatim>\<open>created\<close> among them, as it was.
\<close>

definition overwritten :: "ResourceData \<Rightarrow> ListEntry \<Rightarrow> ResourceData" where
  "overwritten d e =
     d\<lparr>attrs := (attrs d)(''name'' \<mapsto> VString (Name e), ''status'' \<mapsto> VString (Status e))\<rparr>"

section \<open>Shape of the argument vectors\<close>

lemma config_typed_entry:
  "config_typed d \<Longrightarrow> (k, t, False) \<in> set Schema \<Longrightarrow>
     (case attrs d k of None \<Rightarrow> True | Some v \<Rightarrow> has_type v t)"
  unfolding config_typed_def list_all_iff typed_at_def by fastforce

lemma Get_string_field:
  assumes "config_typed d" and "(k, TypeString, False) \<in> set Schema"
    and "schema_type k = Some TypeString"
  shows "Get d k = VString (field_string d k)"
proof (cases "attrs d k")
  case None
  then show ?thesis using assms(3) by (simp add: Get_def field_string_def)
next
  case (Some v)
  with config_typed_entry [OF assms(1,2)] have "has_type v TypeString" by simp
  then obtain s where "v = VString s" by (cases v) simp_all
  with Some assms(3) show ?thesis by (simp add: Get_def field_string_def)
qed

lemma Get_bool_field:
  assumes "config_typed d" and "(k, TypeBool, False) \<in> set Schema"
    and "schema_type k = Some TypeBool"
  shows "Get d k = VBool (field_bool d k)"
proof (cases "attrs d k")
  case None
  then show ?thesis using assms(3) by (simp add: Get_def field_bool_def)
next
  case (Some v)
  with config_typed_entry [OF assms(1,2)] have "has_type v TypeBool" by simp
  then obtain b where "v = VBool b" by (cases v) simp_all
  with Some assms(3) show ?thesis by (simp add: Get_def field_bool_def)
qed

lemma Get_config_strings:
  assumes "config_typed d"
  shows "Get d ''name'' = VString (field_string d ''name'')"
    and "Get d ''namespace'' = VString (field_string d ''namespace'')"
    and "Get d ''context'' = VString (field_string d ''context'')"
    and "Get d ''distro'' = VString (field_string d ''distro'')"
    and "Get d ''kubernetes_version'' = VString (field_string d ''kubernetes_version'')"
  by (rule Get_string_field [OF assms]; simp add: Schema_def schema_type_def)+

lemma Get_config_bools:
  assumes "config_typed d"
  shows "Get d ''isolate'' = VBool (field_bool d ''isolate'')"
    and "Get d ''expose'' = VBool (field_bool d ''expose'')"
    and "Get d ''expose_local'' = VBool (field_bool d ''expose_local'')"
    and "Get d ''disable_ingress_sync'' = VBool (field_bool d ''disable_ingress_sync'')"
    and "Get d ''create_namespace'' = VBool (field_bool d ''create_namespace'')"
  by (rule Get_bool_field [OF assms]; simp add: Schema_def schema_type_def)+

lemma vclusterBaseArgs_shape:
  "config_typed d \<Longrightarrow> vclusterBaseArgs d args = Some (args @ targeting_flags d)"
  by (simp add: vclusterBaseArgs_def Get_config_strings targeting_flags_def)

lemma create_args_shape:
  "config_typed d \<Longrightarrow>
     create_args d =
       Some ([''create'', field_string d ''name'', ''--connect=false''] @
             targeting_flags d @ create_flags d)"
  by (simp add: create_args_def vclusterBaseArgs_shape Get_config_strings Get_config_bools
      create_flags_def)

lemma read_args_shape:
  "config_typed d \<Longrightarrow>
     read_args d = Some ([''list'', ''--output'', ''json''] @ targeting_flags d)"
  by (simp add: read_args_def vclusterBaseArgs_shape)

lemma delete_args_shape:
  "config_typed d \<Longrightarrow>
     delete_args d = Some ([''delete'', field_string d ''name''] @ targeting_flags d)"
  by (simp add: delete_args_def vclusterBaseArgs_shape Get_config_strings)

lemma bool_flags_cases:
  assumes "(k, f) \<in> set bool_flags"
  obtains "k = ''create_namespace''" "f = ''--create-namespace''"
    | "k = ''disable_ingress_sync''" "f = ''--disable-ingress-sync''"
    | "k = ''expose''" "f = ''--expose''"
    | "k = ''expose_local''" "f = ''--expose-local''"
    | "k = ''isolate''" "f = ''--isolate''"
proof -
  have "(k, f) = (''create_namespace'', ''--create-namespace'') \<or>
        (k, f) = (''disable_ingress_sync'', ''--disable-ingress-sync'') \<or>
        (k, f) = (''expose'', ''--expose'') \<or>
        (k, f) = (''expose_local'', ''--expose-local'') \<or>
        (k, f) = (''isolate'', ''--isolate'')"
    using assms unfolding bool_flags_def
    by (simp only: list.set insert_iff empty_iff simp_thms)
  then show thesis
    using that by (elim disjE) (simp_all only: prod.inject)
qed

lemma count_create_flags_bool_flag:
  assumes "(k, f) \<in> set bool_flags"
  shows "count_list (create_flags d) (f @ ''='' @ fmt_bool (field_bool d k)) = 1"
  using assms by (cases rule: bool_flags_cases) (simp_all add: create_flags_def)

lemma count_create_head_bool_flag:
  assumes "(k, f) \<in> set bool_flags" and "n \<noteq> f @ ''='' @ v"
  shows "count_list [''create'', n, ''--connect=false''] (f @ ''='' @ v) = 0"
  using assms by (cases rule: bool_flags_cases) simp_all

lemma count_targeting_bool_flag:
  assumes "(k, f) \<in> set bool_flags" and "f @ ''='' @ v \<notin> set (free_text d)"
  shows "count_list (targeting_flags d) (f @ ''='' @ v) = 0"
  using assms
  by (cases rule: bool_flags_cases) (auto simp: targeting_flags_def free_text_def)

section \<open>Order of the flags\<close>

text \<open>
  C1. In the vector of Create the targeting flags \<^verbatim>\<open>--namespace\<close> and \<^verbatim>\<open>--context\<close>, each
  present only when its field is not empty, stand right behind \<^verbatim>\<open>create <name> --connect=false\<close>
  and before all flags that Create appends for its own fields; in the vector of Delete they
  stand right behind \<^verbatim>\<open>delete <name>\<close>, and there is nothing after them; in the vector
  of Read they stand behind \<^verbatim>\<open>list --output json\<close>.
\<close>

theorem targeting_flags_position:
  assumes "config_typed d"
  shows "create_args d =
           Some ([''create'', field_string d ''name'', ''--connect=false''] @
                 targeting_flags d @ create_flags d) \<and>
         delete_args d = Some ([''delete'', field_string d ''name''] @ targeting_flags d) \<and>
         read_args d = Some ([''list'', ''--output'', ''json''] @ targeting_flags d)"
  using assms by (simp only: create_args_shape delete_args_shape read_args_shape simp_thms)

text \<open>The three vectors of a record with a namespace, a context and a distro.\<close>

theorem targeting_flags_position_witness:
  "config_typed \<lparr>ident = ''dev1'', attrs = [''name'' \<mapsto> VString ''dev1'',
       ''namespace'' \<mapsto> VString ''team-a'', ''context'' \<mapsto> VString ''kind-kind'',
       ''distro'' \<mapsto> VString ''k3s'']\<rparr> \<and>
   create_args \<lparr>ident = ''dev1'', attrs = [''name'' \<mapsto> VString ''dev1'',
       ''namespace'' \<mapsto> VString ''team-a'', ''context'' \<mapsto> VString ''kind-kind'',
       ''distro'' \<mapsto> VString ''k3s'']\<rparr> =
     Some [''create'', ''dev1'', ''--connect=false'', ''--namespace'', ''team-a'',
       ''--context'', ''kind-kind'', ''--distro=k3s'', ''--isolate=false'', ''--expose=false'',
       ''--expose-local=false'', ''--disable-ingress-sync=false'',
       ''--create-namespace=false''] \<and>
   delete_args \<lparr>ident = ''dev1'', attrs = [''name'' \<mapsto> VString ''dev1'',
       ''namespace'' \<mapsto> VString ''team-a'', ''context'' \<mapsto> VString ''kind-kind'',
       ''distro'' \<mapsto> VString ''k3s'']\<rparr> =
     Some [''delete'', ''dev1'', ''--namespace'', ''team-a'', ''--context'', ''kind-kind''] \<and>
   read_args \<lparr>ident = ''dev1'', attrs = [''name'' \<mapsto> VString ''dev1'',
       ''namespace'' \<mapsto> VString ''team-a'', ''context'' \<mapsto> VString ''kind-kind'',
       ''distro'' \<mapsto> VString ''k3s'']\<rparr> =
     Some [''list'', ''--output'', ''json'', ''--namespace'', ''team-a'',
       ''--context'', ''kind-kind'']"
proof -
  let ?d = "\<lparr>ident = ''dev1'', attrs = [''name'' \<mapsto> VString ''dev1'',
       ''namespace'' \<mapsto> VString ''team-a'', ''context'' \<mapsto> VString ''kind-kind'',
       ''distro'' \<mapsto> VString ''k3s'']\<rparr>"
  have typed: "config_typed ?d"
    by (simp add: config_typed_def Schema_def typed_at_def)
  show ?thesis
    using typed targeting_flags_position [OF typed]
    by (simp add: targeting_flags_def create_flags_def field_string_def field_bool_def
        fmt_bool_def)
qed

section \<open>The example of Create\<close>

text \<open>
  C2. Create on the record with name \<^verbatim>\<open>dev1\<close>, distro \<^verbatim>\<open>k3s\<close>, isolate true and namespace
  \<^verbatim>\<open>team-a\<close>, and nothing else set, runs the tool with a vector that, tokens of the four
  boolean fields that are not set left aside, is exactly
  \<^verbatim>\<open>create dev1 --connect=false --namespace team-a --distro=k3s --isolate=true\<close>: the
  namespace stands right behind \<^verbatim>\<open>--connect=false\<close> and before the distro, and there is
  no \<^verbatim>\<open>--context\<close>. Nothing is said here about tokens of the fields \<^verbatim>\<open>expose\<close>,
  \<^verbatim>\<open>expose_local\<close>, \<^verbatim>\<open>disable_ingress_sync\<close> and \<^verbatim>\<open>create_namespace\<close>.
\<close>

theorem create_example_vector:
  "map_option
     (filter (\<lambda>t. \<not> list_ex (\<lambda>f. prefix f t)
        [''--expose='', ''--expose-local='', ''--disable-ingress-sync='',
         ''--create-namespace='']))
     (create_args \<lparr>ident = i, attrs = [''name'' \<mapsto> VString ''dev1'',
        ''distro'' \<mapsto> VString ''k3s'', ''isolate'' \<mapsto> VBool True,
        ''namespace'' \<mapsto> VString ''team-a'']\<rparr>) =
     Some [''create'', ''dev1'', ''--connect=false'', ''--namespace'', ''team-a'',
       ''--distro=k3s'', ''--isolate=true''] \<and>
   map_option (\<lambda>args. ''--context'' \<in> set args)
     (create_args \<lparr>ident = i, attrs = [''name'' \<mapsto> VString ''dev1'',
        ''distro'' \<mapsto> VString ''k3s'', ''isolate'' \<mapsto> VBool True,
        ''namespace'' \<mapsto> VString ''team-a'']\<rparr>) = Some False"
proof -
  have "config_typed \<lparr>ident = i, attrs = [''name'' \<mapsto> VString ''dev1'',
       ''distro'' \<mapsto> VString ''k3s'', ''isolate'' \<mapsto> VBool True,
       ''namespace'' \<mapsto> VString ''team-a'']\<rparr>"
    by (simp add: config_typed_def Schema_def typed_at_def)
  then show ?thesis
    by (simp add: create_args_shape targeting_flags_def create_flags_def field_string_def
        field_bool_def fmt_bool_def)
qed

text \<open>
  The vector is not the one that lists \<^verbatim>\<open>--namespace team-a\<close> last, also when the tokens
  of the boolean fields that are not set are left aside.
\<close>

theorem create_example_counterexample:
  "create_args \<lparr>ident = [], attrs = [''name'' \<mapsto> VString ''dev1'',
       ''distro'' \<mapsto> VString ''k3s'', ''isolate'' \<mapsto> VBool True,
       ''namespace'' \<mapsto> VString ''team-a'']\<rparr> \<noteq>
     Some [''create'', ''dev1'', ''--connect=false'', ''--distro=k3s'', ''--isolate=true'',
       ''--namespace'', ''team-a''] \<and>
   map_option
     (filter (\<lambda>t. \<not> list_ex (\<lambda>f. prefix f t)
        [''--expose='', ''--expose-local='', ''--disable-ingress-sync='',
         ''--create-namespace='']))
     (create_args \<lparr>ident = [], attrs = [''name'' \<mapsto> VString ''dev1'',
        ''distro'' \<mapsto> VString ''k3s'', ''isolate'' \<mapsto> VBool True,
        ''namespace'' \<mapsto> VString ''team-a'']\<rparr>) \<noteq>
     Some [''create'', ''dev1'', ''--connect=false'', ''--distro=k3s'', ''--isolate=true'',
       ''--namespace'', ''team-a'']"
proof -
  have "config_typed \<lparr>ident = [], attrs = [''name'' \<mapsto> VString ''dev1'',
       ''distro'' \<mapsto> VString ''k3s'', ''isolate'' \<mapsto> VBool True,
       ''namespace'' \<mapsto> VString ''team-a'']\<rparr>"
    by (simp add: config_typed_def Schema_def typed_at_def)
  then show ?thesis
    by (simp add: create_args_shape targeting_flags_def create_flags_def field_string_def
        field_bool_def fmt_bool_def)
qed

section \<open>The boolean flags of Create\<close>

text \<open>
  C3. When one of the boolean fields \<^verbatim>\<open>create_namespace\<close>, \<^verbatim>\<open>disable_ingress_sync\<close>,
  \<^verbatim>\<open>expose\<close>, \<^verbatim>\<open>expose_local\<close>, \<^verbatim>\<open>isolate\<close> is set, to true or to false, and neither the
  name nor the namespace nor the context is itself the text \<^verbatim>\<open>--<flag>=<bool>\<close>, the
  vector of Create holds the token \<^verbatim>\<open>--<flag>=<bool>\<close> exactly once, with \<^verbatim>\<open>true\<close> or
  \<^verbatim>\<open>false\<close> for the value.
\<close>

theorem bool_flag_exactly_once:
  assumes "config_typed d"
    and "(key, flag) \<in> set bool_flags"
    and "attrs d key = Some (VBool b)"
    and "flag @ ''='' @ fmt_bool b \<notin> set (free_text d)"
  shows "\<exists>args. create_args d = Some args \<and> count_list args (flag @ ''='' @ fmt_bool b) = 1"
proof -
  let ?tok = "flag @ ''='' @ fmt_bool b"
  have b: "field_bool d key = b"
    using assms(3) by (simp add: field_bool_def)
  have f1: "count_list (create_flags d) ?tok = 1"
    using count_create_flags_bool_flag [OF assms(2), of d] by (simp only: b)
  have name: "field_string d ''name'' \<noteq> ?tok"
    using assms(4) by (auto simp: free_text_def)
  have f2: "count_list [''create'', field_string d ''name'', ''--connect=false''] ?tok = 0"
    by (rule count_create_head_bool_flag [OF assms(2) name])
  have f3: "count_list (targeting_flags d) ?tok = 0"
    by (rule count_targeting_bool_flag [OF assms(2,4)])
  have "count_list ([''create'', field_string d ''name'', ''--connect=false''] @
      targeting_flags d @ create_flags d) ?tok = 1"
    unfolding count_list_append f1 f2 f3 by simp
  then show ?thesis
    using create_args_shape [OF assms(1)] by blast
qed

text \<open>A record whose \<^verbatim>\<open>expose\<close> is set to false.\<close>

theorem bool_flag_exactly_once_witness:
  "config_typed \<lparr>ident = [], attrs = [''name'' \<mapsto> VString ''dev1'',
       ''expose'' \<mapsto> VBool False]\<rparr> \<and>
   (''expose'', ''--expose'') \<in> set bool_flags \<and>
   ''--expose=false'' \<notin> set (free_text \<lparr>ident = [], attrs = [''name'' \<mapsto> VString ''dev1'',
       ''expose'' \<mapsto> VBool False]\<rparr>) \<and>
   count_list (the (create_args \<lparr>ident = [], attrs = [''name'' \<mapsto> VString ''dev1'',
       ''expose'' \<mapsto> VBool False]\<rparr>)) ''--expose=false'' = 1"
proof -
  let ?d = "\<lparr>ident = [], attrs = [''name'' \<mapsto> VString ''dev1'',
       ''expose'' \<mapsto> VBool False]\<rparr>"
  have h1: "config_typed ?d"
    by (simp add: config_typed_def Schema_def typed_at_def)
  have h2: "(''expose'', ''--expose'') \<in> set bool_flags"
    by (simp add: bool_flags_def)
  have h3: "attrs ?d ''expose'' = Some (VBool False)"
    by simp
  have h4: "''--expose'' @ ''='' @ fmt_bool False \<notin> set (free_text ?d)"
    by (simp add: free_text_def field_string_def fmt_bool_def)
  from bool_flag_exactly_once [OF h1 h2 h3 h4]
  have "count_list (the (create_args ?d)) ''--expose=false'' = 1"
    by (auto simp: fmt_bool_def)
  with h1 h2 h4 show ?thesis
    by (simp add: fmt_bool_def)
qed

text \<open>
  A cluster whose name is the text \<^verbatim>\<open>--isolate=true\<close>: the vector holds that token twice,
  once for the name and once for the field.
\<close>

theorem bool_flag_exactly_once_counterexample:
  "attrs \<lparr>ident = [], attrs = [''name'' \<mapsto> VString ''--isolate=true'',
       ''isolate'' \<mapsto> VBool True]\<rparr> ''isolate'' = Some (VBool True) \<and>
   create_args \<lparr>ident = [], attrs = [''name'' \<mapsto> VString ''--isolate=true'',
       ''isolate'' \<mapsto> VBool True]\<rparr> =
     Some [''create'', ''--isolate=true'', ''--connect=false'', ''--isolate=true'',
       ''--expose=false'', ''--expose-local=false'', ''--disable-ingress-sync=false'',
       ''--create-namespace=false''] \<and>
   count_list (the (create_args \<lparr>ident = [], attrs = [''name'' \<mapsto> VString ''--isolate=true'',
       ''isolate'' \<mapsto> VBool True]\<rparr>)) ''--isolate=true'' = 2"
proof -
  have "config_typed \<lparr>ident = [], attrs = [''name'' \<mapsto> VString ''--isolate=true'',
       ''isolate'' \<mapsto> VBool True]\<rparr>"
    by (simp add: config_typed_def Schema_def typed_at_def)
  then show ?thesis
    by (simp add: create_args_shape targeting_flags_def create_flags_def field_string_def
        field_bool_def fmt_bool_def)
qed

section \<open>The string-valued flags\<close>

lemma count_targeting_namespace:
  assumes "''--namespace'' \<notin> set (free_text d)"
  shows "count_list (targeting_flags d) ''--namespace'' =
           (if field_string d ''namespace'' = [] then 0 else 1)"
  using assms by (auto simp: targeting_flags_def free_text_def)

lemma count_targeting_context:
  assumes "''--context'' \<notin> set (free_text d)"
  shows "count_list (targeting_flags d) ''--context'' =
           (if field_string d ''context'' = [] then 0 else 1)"
  using assms by (auto simp: targeting_flags_def free_text_def)

lemma create_flags_no_targeting:
  "count_list (create_flags d) ''--namespace'' = 0"
  "count_list (create_flags d) ''--context'' = 0"
  by (simp_all add: create_flags_def)

lemma sublist_targeting_namespace:
  assumes "field_string d ''namespace'' \<noteq> []"
  shows "sublist [''--namespace'', field_string d ''namespace'']
           (pre @ targeting_flags d @ post)"
proof -
  obtain rest where "targeting_flags d = [''--namespace'', field_string d ''namespace''] @ rest"
    using assms by (simp add: targeting_flags_def)
  then have "pre @ targeting_flags d @ post =
      pre @ [''--namespace'', field_string d ''namespace''] @ (rest @ post)"
    by simp
  then show ?thesis
    by (simp only: sublist_appendI)
qed

lemma sublist_targeting_context:
  assumes "field_string d ''context'' \<noteq> []"
  shows "sublist [''--context'', field_string d ''context'']
           (pre @ targeting_flags d @ post)"
proof -
  obtain front where "targeting_flags d = front @ [''--context'', field_string d ''context'']"
    using assms by (simp add: targeting_flags_def)
  then have "pre @ targeting_flags d @ post =
      (pre @ front) @ [''--context'', field_string d ''context''] @ post"
    by simp
  then show ?thesis
    by (simp only: sublist_appendI)
qed

lemma emits_targeting_once_vector:
  assumes "''--namespace'' \<notin> set (free_text d)" and "''--context'' \<notin> set (free_text d)"
    and "count_list pre ''--namespace'' = 0" and "count_list pre ''--context'' = 0"
    and "count_list post ''--namespace'' = 0" and "count_list post ''--context'' = 0"
  shows "emits_targeting_once d (pre @ targeting_flags d @ post)"
  unfolding emits_targeting_once_def count_list_append
    count_targeting_namespace [OF assms(1)] count_targeting_context [OF assms(2)]
  using assms(3-6) sublist_targeting_namespace [of d pre post]
    sublist_targeting_context [of d pre post]
  by simp

lemma distro_tokens_targeting:
  assumes "\<forall>t \<in> set (free_text d). \<not> prefix ''--distro'' t"
  shows "filter (prefix ''--distro'') (targeting_flags d) = []"
  using assms by (simp add: targeting_flags_def free_text_def)

lemma distro_tokens_create_flags:
  "filter (prefix ''--distro'') (create_flags d) =
     (if field_string d ''distro'' = [] then [] else [''--distro='' @ field_string d ''distro''])"
  by (simp add: create_flags_def)

text \<open>
  C4. When neither the name nor the namespace nor the context is itself the text
  \<^verbatim>\<open>--namespace\<close> or \<^verbatim>\<open>--context\<close>, or begins with \<^verbatim>\<open>--distro\<close>, then in the vector of
  every operation a namespace that is not empty gives the tokens \<^verbatim>\<open>--namespace <value>\<close>
  exactly once and an empty or unset namespace gives no \<^verbatim>\<open>--namespace\<close> token, and the
  same for the context; and the vector of Create holds the one token
  \<^verbatim>\<open>--distro=<value>\<close> when the distro is not empty and no token that begins with
  \<^verbatim>\<open>--distro\<close> when it is empty or unset.
\<close>

theorem string_flags_emitted_iff_nonempty:
  assumes "config_typed d"
    and "''--namespace'' \<notin> set (free_text d)"
    and "''--context'' \<notin> set (free_text d)"
    and "\<forall>t \<in> set (free_text d). \<not> prefix ''--distro'' t"
  shows "(\<forall>build \<in> set [create_args, read_args, delete_args].
            \<exists>args. build d = Some args \<and> emits_targeting_once d args) \<and>
         (\<exists>args. create_args d = Some args \<and>
            filter (prefix ''--distro'') args =
              (if field_string d ''distro'' = [] then []
               else [''--distro='' @ field_string d ''distro'']))"
proof -
  have name: "field_string d ''name'' \<noteq> ''--namespace''" "field_string d ''name'' \<noteq> ''--context''"
    "\<not> prefix ''--distro'' (field_string d ''name'')"
    using assms(2-4) by (auto simp: free_text_def)
  have create: "emits_targeting_once d
      ([''create'', field_string d ''name'', ''--connect=false''] @ targeting_flags d @ create_flags d)"
    using name by (intro emits_targeting_once_vector [OF assms(2,3)])
      (simp_all add: create_flags_no_targeting)
  have read: "emits_targeting_once d ([''list'', ''--output'', ''json''] @ targeting_flags d @ [])"
    by (intro emits_targeting_once_vector [OF assms(2,3)]) simp_all
  have delete: "emits_targeting_once d ([''delete'', field_string d ''name''] @ targeting_flags d @ [])"
    using name by (intro emits_targeting_once_vector [OF assms(2,3)]) simp_all
  have distro: "filter (prefix ''--distro'')
      ([''create'', field_string d ''name'', ''--connect=false''] @ targeting_flags d @ create_flags d) =
      (if field_string d ''distro'' = [] then [] else [''--distro='' @ field_string d ''distro''])"
    using name(3)
    by (simp add: distro_tokens_targeting [OF assms(4)] distro_tokens_create_flags)
  show ?thesis
    using create read delete distro
    by (simp add: create_args_shape [OF assms(1)] read_args_shape [OF assms(1)]
        delete_args_shape [OF assms(1)])
qed

text \<open>A record with a namespace and a distro, and no context.\<close>

theorem string_flags_emitted_iff_nonempty_witness:
  "config_typed \<lparr>ident = [], attrs = [''name'' \<mapsto> VString ''dev1'',
       ''namespace'' \<mapsto> VString ''team-a'', ''distro'' \<mapsto> VString ''k3s'']\<rparr> \<and>
   count_list (the (create_args \<lparr>ident = [], attrs = [''name'' \<mapsto> VString ''dev1'',
       ''namespace'' \<mapsto> VString ''team-a'', ''distro'' \<mapsto> VString ''k3s'']\<rparr>))
     ''--namespace'' = 1 \<and>
   count_list (the (read_args \<lparr>ident = [], attrs = [''name'' \<mapsto> VString ''dev1'',
       ''namespace'' \<mapsto> VString ''team-a'', ''distro'' \<mapsto> VString ''k3s'']\<rparr>))
     ''--namespace'' = 1 \<and>
   count_list (the (delete_args \<lparr>ident = [], attrs = [''name'' \<mapsto> VString ''dev1'',
       ''namespace'' \<mapsto> VString ''team-a'', ''distro'' \<mapsto> VString ''k3s'']\<rparr>))
     ''--context'' = 0 \<and>
   sublist [''--namespace'', ''team-a'']
     (the (delete_args \<lparr>ident = [], attrs = [''name'' \<mapsto> VString ''dev1'',
       ''namespace'' \<mapsto> VString ''team-a'', ''distro'' \<mapsto> VString ''k3s'']\<rparr>)) \<and>
   filter (prefix ''--distro'')
     (the (create_args \<lparr>ident = [], attrs = [''name'' \<mapsto> VString ''dev1'',
       ''namespace'' \<mapsto> VString ''team-a'', ''distro'' \<mapsto> VString ''k3s'']\<rparr>)) =
     [''--distro=k3s'']"
proof -
  let ?d = "\<lparr>ident = [], attrs = [''name'' \<mapsto> VString ''dev1'',
       ''namespace'' \<mapsto> VString ''team-a'', ''distro'' \<mapsto> VString ''k3s'']\<rparr>"
  have h1: "config_typed ?d"
    by (simp add: config_typed_def Schema_def typed_at_def)
  have h2: "''--namespace'' \<notin> set (free_text ?d)"
    by (simp add: free_text_def field_string_def)
  have h3: "''--context'' \<notin> set (free_text ?d)"
    by (simp add: free_text_def field_string_def)
  have h4: "\<forall>t \<in> set (free_text ?d). \<not> prefix ''--distro'' t"
    by (simp add: free_text_def field_string_def)
  have fields: "field_string ?d ''namespace'' = ''team-a''" "field_string ?d ''context'' = []"
    "field_string ?d ''distro'' = ''k3s''"
    by (simp_all add: field_string_def)
  from string_flags_emitted_iff_nonempty [OF h1 h2 h3 h4] obtain cargs rargs dargs where
    "create_args ?d = Some cargs" "emits_targeting_once ?d cargs"
    "read_args ?d = Some rargs" "emits_targeting_once ?d rargs"
    "delete_args ?d = Some dargs" "emits_targeting_once ?d dargs"
    "filter (prefix ''--distro'') cargs = [''--distro=k3s'']"
    unfolding fields by (simp only: list.set ball_simps bex_simps) auto
  with h1 show ?thesis
    unfolding emits_targeting_once_def fields by simp
qed

text \<open>
  The name is copied into the vector as it is. A cluster named \<^verbatim>\<open>--distro=k8s\<close> puts a
  distro token into the vector of Create although no distro is set, and a cluster named
  \<^verbatim>\<open>--namespace\<close> or \<^verbatim>\<open>--context\<close> puts that token into the vector of Delete although
  the field is not set.
\<close>

theorem string_flags_emitted_iff_nonempty_counterexample:
  "attrs \<lparr>ident = [], attrs = [''name'' \<mapsto> VString ''--distro=k8s'']\<rparr> ''distro'' = None \<and>
   create_args \<lparr>ident = [], attrs = [''name'' \<mapsto> VString ''--distro=k8s'']\<rparr> =
     Some [''create'', ''--distro=k8s'', ''--connect=false'', ''--isolate=false'',
       ''--expose=false'', ''--expose-local=false'', ''--disable-ingress-sync=false'',
       ''--create-namespace=false''] \<and>
   attrs \<lparr>ident = [], attrs = [''name'' \<mapsto> VString ''--namespace'']\<rparr> ''namespace'' = None \<and>
   delete_args \<lparr>ident = [], attrs = [''name'' \<mapsto> VString ''--namespace'']\<rparr> =
     Some [''delete'', ''--namespace''] \<and>
   attrs \<lparr>ident = [], attrs = [''name'' \<mapsto> VString ''--context'']\<rparr> ''context'' = None \<and>
   delete_args \<lparr>ident = [], attrs = [''name'' \<mapsto> VString ''--context'']\<rparr> =
     Some [''delete'', ''--context''] \<and>
   filter (prefix ''--distro'')
     (the (create_args \<lparr>ident = [], attrs = [''name'' \<mapsto> VString ''--distro=k8s'']\<rparr>)) =
     [''--distro=k8s''] \<and>
   count_list (the (delete_args \<lparr>ident = [], attrs = [''name'' \<mapsto> VString ''--namespace'']\<rparr>))
     ''--namespace'' = 1 \<and>
   count_list (the (delete_args \<lparr>ident = [], attrs = [''name'' \<mapsto> VString ''--context'']\<rparr>))
     ''--context'' = 1"
proof -
  have "config_typed \<lparr>ident = [], attrs = [''name'' \<mapsto> VString ''--distro=k8s'']\<rparr>"
    and "config_typed \<lparr>ident = [], attrs = [''name'' \<mapsto> VString ''--namespace'']\<rparr>"
    and "config_typed \<lparr>ident = [], attrs = [''name'' \<mapsto> VString ''--context'']\<rparr>"
    by (simp_all add: config_typed_def Schema_def typed_at_def)
  then show ?thesis
    by (simp add: create_args_shape delete_args_shape targeting_flags_def create_flags_def
        field_string_def field_bool_def fmt_bool_def)
qed

section \<open>Read\<close>

lemma range_entries_filter:
  "range_entries i entries acc =
     (if filter (\<lambda>e. Name e = i) entries = [] then acc
      else last (filter (\<lambda>e. Name e = i) entries))"
  by (induction entries arbitrary: acc) simp_all

lemma range_entries_no_match:
  "\<forall>e \<in> set entries. Name e \<noteq> i \<Longrightarrow> range_entries i entries acc = acc"
  by (simp add: range_entries_filter filter_empty_conv)

lemma range_entries_match:
  "\<exists>e \<in> set entries. Name e = i \<Longrightarrow> range_entries i entries acc = last_match i entries"
  by (auto simp: range_entries_filter filter_empty_conv last_match_def)

lemma last_match_Name:
  assumes "\<exists>e \<in> set entries. Name e = i"
  shows "Name (last_match i entries) = i"
proof -
  have ne: "filter (\<lambda>e. Name e = i) entries \<noteq> []"
    using assms by (simp add: filter_empty_conv)
  then have "last (filter (\<lambda>e. Name e = i) entries) \<in> set (filter (\<lambda>e. Name e = i) entries)"
    by (rule last_in_set)
  then show ?thesis
    by (simp add: last_match_def)
qed

lemma Read_decoded:
  assumes "config_typed d"
    and "run ([''list'', ''--output'', ''json''] @ targeting_flags d) = (out, None)"
    and "unmarshal out = Inr entries"
  shows "resourceVClusterRead run unmarshal d =
     Some (if range_entries (ident d) entries ListEntry_zero = ListEntry_zero
           then \<lparr>data = d\<lparr>ident := []\<rparr>,
                 invoked = [[''list'', ''--output'', ''json''] @ targeting_flags d], diags = []\<rparr>
           else \<lparr>data = overwritten d (range_entries (ident d) entries ListEntry_zero),
                 invoked = [[''list'', ''--output'', ''json''] @ targeting_flags d], diags = []\<rparr>)"
  using assms(2,3)
  by (simp add: resourceVClusterRead_def read_args_shape [OF assms(1)] Let_def SetId_def
      Set_attr_def schema_type_def Schema_def overwritten_def)

lemma Read_match_outcome:
  assumes "config_typed d"
    and "run ([''list'', ''--output'', ''json''] @ targeting_flags d) = (out, None)"
    and "unmarshal out = Inr entries"
    and "\<exists>e \<in> set entries. Name e = ident d"
    and "last_match (ident d) entries \<noteq> ListEntry_zero"
  shows "resourceVClusterRead run unmarshal d =
     Some \<lparr>data = overwritten d (last_match (ident d) entries),
           invoked = [[''list'', ''--output'', ''json''] @ targeting_flags d], diags = []\<rparr>"
  using assms(5) Read_decoded [where d=d and run=run and unmarshal=unmarshal and out=out and entries=entries, OF assms(1-3)]
  by (simp add: range_entries_match [OF assms(4)])

text \<open>
  C5. Read is to take the last entry whose name is the tracked identifier and to write
  its name, its status and its creation time into the record. It does so for the name
  and the status. The creation time it hands to \<^verbatim>\<open>d.Set\<close> as a \<^verbatim>\<open>time.Time\<close>, while the
  attribute \<^verbatim>\<open>created\<close> is of \<^verbatim>\<open>TypeString\<close>: the value is refused, the error is dropped,
  and \<^verbatim>\<open>created\<close> stays as it was. Here the cluster \<^verbatim>\<open>dev1\<close> is listed twice, the record
  holds an older \<^verbatim>\<open>created\<close>, and after Read it still does.
\<close>

theorem read_created_not_overwritten:
  "resourceVClusterRead (\<lambda>args. (''[...]'', None))
     (\<lambda>out. Inr [\<lparr>Name = ''dev1'', Namespace = ''a'', Status = ''Pending'',
                     Created = Time 0 63806152320 None, Context = ''c''\<rparr>,
                   \<lparr>Name = ''dev1'', Namespace = ''b'', Status = ''Running'',
                     Created = Time 0 63806152330 None, Context = ''c''\<rparr>])
     \<lparr>ident = ''dev1'', attrs = [''name'' \<mapsto> VString ''dev1'',
        ''created'' \<mapsto> VString ''2020-01-01T00:00:00Z'']\<rparr> =
   Some \<lparr>data = \<lparr>ident = ''dev1'', attrs = [''name'' \<mapsto> VString ''dev1'',
               ''created'' \<mapsto> VString ''2020-01-01T00:00:00Z'',
               ''status'' \<mapsto> VString ''Running'']\<rparr>,
         invoked = [[''list'', ''--output'', ''json'']], diags = []\<rparr>"
proof -
  let ?d = "\<lparr>ident = ''dev1'', attrs = [''name'' \<mapsto> VString ''dev1'',
        ''created'' \<mapsto> VString ''2020-01-01T00:00:00Z'']\<rparr>"
  let ?run = "\<lambda>args :: string list. (''[...]'', None :: string option)"
  let ?entries = "[\<lparr>Name = ''dev1'', Namespace = ''a'', Status = ''Pending'',
                     Created = Time 0 63806152320 None, Context = ''c''\<rparr>,
                   \<lparr>Name = ''dev1'', Namespace = ''b'', Status = ''Running'',
                     Created = Time 0 63806152330 None, Context = ''c''\<rparr>]"
  let ?un = "\<lambda>out :: string. Inr ?entries :: string + ListEntry list"
  have h1: "config_typed ?d"
    by (simp add: config_typed_def Schema_def typed_at_def)
  have h2: "?run ([''list'', ''--output'', ''json''] @ targeting_flags ?d) = (''[...]'', None)"
    by simp
  have h3: "?un ''[...]'' = Inr ?entries"
    by simp
  have h4: "\<exists>e \<in> set ?entries. Name e = ident ?d"
    by simp
  have h5: "last_match (ident ?d) ?entries \<noteq> ListEntry_zero"
    by (simp add: last_match_def ListEntry_zero_def)
  have "(attrs ?d)(''name'' \<mapsto> VString ''dev1'', ''status'' \<mapsto> VString ''Running'') =
      [''name'' \<mapsto> VString ''dev1'', ''created'' \<mapsto> VString ''2020-01-01T00:00:00Z'',
       ''status'' \<mapsto> VString ''Running'']"
    by (rule ext) simp
  then show ?thesis
    using Read_match_outcome [where d = ?d and run = ?run and unmarshal = ?un
        and out = "''[...]''" and entries = ?entries, OF h1 h2 h3 h4 h5]
    by (simp add: last_match_def overwritten_def targeting_flags_def field_string_def)
qed

text \<open>
  With an empty identifier the zero entry has the name that is looked for, and yet Read
  takes the branch of absence: the status of the record stays as it was.
\<close>

lemma read_zero_entry_taken_for_absence:
  "Name ListEntry_zero = ident \<lparr>ident = [], attrs = [''status'' \<mapsto> VString ''Running'']\<rparr> \<and>
   Status ListEntry_zero = [] \<and>
   resourceVClusterRead (\<lambda>args. (''[{}]'', None)) (\<lambda>out. Inr [ListEntry_zero])
     \<lparr>ident = [], attrs = [''status'' \<mapsto> VString ''Running'']\<rparr> =
   Some \<lparr>data = \<lparr>ident = [], attrs = [''status'' \<mapsto> VString ''Running'']\<rparr>,
         invoked = [[''list'', ''--output'', ''json'']], diags = []\<rparr>"
proof -
  have "config_typed \<lparr>ident = [], attrs = [''status'' \<mapsto> VString ''Running'']\<rparr>"
    by (simp add: config_typed_def Schema_def typed_at_def)
  then show ?thesis
    by (simp add: resourceVClusterRead_def read_args_shape targeting_flags_def
        field_string_def SetId_def ListEntry_zero_def)
qed

text \<open>
  C6. When no entry of the decoded list has the tracked identifier for its name, Read
  clears the identifier, returns no diagnostic and leaves every attribute of the record
  as it was.
\<close>

theorem read_absent_clears_identifier:
  assumes "config_typed d"
    and "run ([''list'', ''--output'', ''json''] @ targeting_flags d) = (out, None)"
    and "unmarshal out = Inr entries"
    and "\<forall>e \<in> set entries. Name e \<noteq> ident d"
  shows "resourceVClusterRead run unmarshal d =
     Some \<lparr>data = d\<lparr>ident := []\<rparr>,
           invoked = [[''list'', ''--output'', ''json''] @ targeting_flags d], diags = []\<rparr>"
  using Read_decoded [where d=d and run=run and unmarshal=unmarshal and out=out and entries=entries, OF assms(1-3)]
  by (simp add: range_entries_no_match [OF assms(4)])

text \<open>The list holds another cluster only.\<close>

theorem read_absent_clears_identifier_witness:
  "resourceVClusterRead (\<lambda>args. (''[...]'', None))
     (\<lambda>out. Inr [\<lparr>Name = ''dev2'', Namespace = ''a'', Status = ''Running'',
                     Created = Time 3 4 None, Context = ''c''\<rparr>])
     \<lparr>ident = ''dev1'', attrs = [''name'' \<mapsto> VString ''dev1'',
        ''status'' \<mapsto> VString ''Running'']\<rparr> =
   Some \<lparr>data = \<lparr>ident = [], attrs = [''name'' \<mapsto> VString ''dev1'',
               ''status'' \<mapsto> VString ''Running'']\<rparr>,
         invoked = [[''list'', ''--output'', ''json'']], diags = []\<rparr>"
proof -
  let ?d = "\<lparr>ident = ''dev1'', attrs = [''name'' \<mapsto> VString ''dev1'',
        ''status'' \<mapsto> VString ''Running'']\<rparr>"
  let ?run = "\<lambda>args :: string list. (''[...]'', None :: string option)"
  let ?entries = "[\<lparr>Name = ''dev2'', Namespace = ''a'', Status = ''Running'',
                     Created = Time 3 4 None, Context = ''c''\<rparr>]"
  let ?un = "\<lambda>out :: string. Inr ?entries :: string + ListEntry list"
  have h1: "config_typed ?d"
    by (simp add: config_typed_def Schema_def typed_at_def)
  have h2: "?run ([''list'', ''--output'', ''json''] @ targeting_flags ?d) = (''[...]'', None)"
    by simp
  have h3: "?un ''[...]'' = Inr ?entries"
    by simp
  have h4: "\<forall>e \<in> set ?entries. Name e \<noteq> ident ?d"
    by simp
  show ?thesis
    using read_absent_clears_identifier [where d = ?d and run = ?run and unmarshal = ?un
        and out = "''[...]''" and entries = ?entries, OF h1 h2 h3 h4]
    by (simp add: targeting_flags_def field_string_def)
qed

section \<open>Failures\<close>

text \<open>
  C7. A failure leaves the record as it was. When the tool fails under Create, Read or
  Delete, the operation returns one error diagnostic whose summary is the command line
  and whose detail is the raw output, and neither the identifier nor an attribute
  changes; when the output of Read does not decode, the operation returns one error
  diagnostic with the text of the decode error, and again nothing changes.
\<close>

theorem failure_leaves_state_unchanged:
  "(create_args d = Some cargs \<and> run cargs = (out, Some err) \<longrightarrow>
      resourceVClusterCreate run d =
        Some \<lparr>data = d, invoked = [cargs],
              diags = [\<lparr>Severity = Error, Summary = ''vcluster '' @ Join cargs '' '',
                        Detail = out\<rparr>]\<rparr>) \<and>
   (read_args d = Some rargs \<and> run rargs = (out, Some err) \<longrightarrow>
      resourceVClusterRead run unmarshal d =
        Some \<lparr>data = d, invoked = [rargs],
              diags = [\<lparr>Severity = Error, Summary = ''vcluster '' @ Join rargs '' '',
                        Detail = out\<rparr>]\<rparr>) \<and>
   (read_args d = Some rargs \<and> run rargs = (out, None) \<and> unmarshal out = Inl e \<longrightarrow>
      resourceVClusterRead run unmarshal d =
        Some \<lparr>data = d, invoked = [rargs],
              diags = [\<lparr>Severity = Error, Summary = e, Detail = []\<rparr>]\<rparr>) \<and>
   (delete_args d = Some dargs \<and> run dargs = (out, Some err) \<longrightarrow>
      resourceVClusterDelete run d =
        Some \<lparr>data = d, invoked = [dargs],
              diags = [\<lparr>Severity = Error, Summary = ''vcluster '' @ Join dargs '' '',
                        Detail = out\<rparr>]\<rparr>)"
proof (intro conjI impI)
  assume a: "create_args d = Some cargs \<and> run cargs = (out, Some err)"
  then obtain n where "assert_string (Get d ''name'') = Some n"
    by (cases "assert_string (Get d ''name'')") (simp_all add: create_args_def)
  with a show "resourceVClusterCreate run d =
        Some \<lparr>data = d, invoked = [cargs],
              diags = [\<lparr>Severity = Error, Summary = ''vcluster '' @ Join cargs '' '',
                        Detail = out\<rparr>]\<rparr>"
    by (simp add: resourceVClusterCreate_def invocation_failure_def)
next
  assume "read_args d = Some rargs \<and> run rargs = (out, Some err)"
  then show "resourceVClusterRead run unmarshal d =
        Some \<lparr>data = d, invoked = [rargs],
              diags = [\<lparr>Severity = Error, Summary = ''vcluster '' @ Join rargs '' '',
                        Detail = out\<rparr>]\<rparr>"
    by (simp add: resourceVClusterRead_def invocation_failure_def)
next
  assume "read_args d = Some rargs \<and> run rargs = (out, None) \<and> unmarshal out = Inl e"
  then show "resourceVClusterRead run unmarshal d =
        Some \<lparr>data = d, invoked = [rargs],
              diags = [\<lparr>Severity = Error, Summary = e, Detail = []\<rparr>]\<rparr>"
    by (simp add: resourceVClusterRead_def FromErr_def)
next
  assume "delete_args d = Some dargs \<and> run dargs = (out, Some err)"
  then show "resourceVClusterDelete run d =
        Some \<lparr>data = d, invoked = [dargs],
              diags = [\<lparr>Severity = Error, Summary = ''vcluster '' @ Join dargs '' '',
                        Detail = out\<rparr>]\<rparr>"
    by (simp add: resourceVClusterDelete_def invocation_failure_def)
qed

text \<open>A failing Create and a Read whose output does not decode.\<close>

theorem failure_leaves_state_unchanged_witness:
  "resourceVClusterCreate (\<lambda>args. (''boom'', Some ''exit status 1''))
     \<lparr>ident = [], attrs = [''name'' \<mapsto> VString ''dev1'']\<rparr> =
   Some \<lparr>data = \<lparr>ident = [], attrs = [''name'' \<mapsto> VString ''dev1'']\<rparr>,
         invoked = [[''create'', ''dev1'', ''--connect=false'', ''--isolate=false'',
           ''--expose=false'', ''--expose-local=false'', ''--disable-ingress-sync=false'',
           ''--create-namespace=false'']],
         diags = [\<lparr>Severity = Error,
           Summary = ''vcluster create dev1 --connect=false --isolate=false --expose=false --expose-local=false --disable-ingress-sync=false --create-namespace=false'',
           Detail = ''boom''\<rparr>]\<rparr> \<and>
   resourceVClusterRead (\<lambda>args. (''<html>'', None)) (\<lambda>out. Inl ''invalid character'')
     \<lparr>ident = ''dev1'', attrs = [''name'' \<mapsto> VString ''dev1'']\<rparr> =
   Some \<lparr>data = \<lparr>ident = ''dev1'', attrs = [''name'' \<mapsto> VString ''dev1'']\<rparr>,
         invoked = [[''list'', ''--output'', ''json'']],
         diags = [\<lparr>Severity = Error, Summary = ''invalid character'', Detail = []\<rparr>]\<rparr>"
proof -
  let ?d = "\<lparr>ident = [], attrs = [''name'' \<mapsto> VString ''dev1'']\<rparr>"
  let ?d' = "\<lparr>ident = ''dev1'', attrs = [''name'' \<mapsto> VString ''dev1'']\<rparr>"
  let ?cargs = "[''create'', ''dev1'', ''--connect=false'', ''--isolate=false'',
           ''--expose=false'', ''--expose-local=false'', ''--disable-ingress-sync=false'',
           ''--create-namespace=false'']"
  let ?rargs = "[''list'', ''--output'', ''json'']"
  have typed: "config_typed ?d" "config_typed ?d'"
    by (simp_all add: config_typed_def Schema_def typed_at_def)
  have c: "create_args ?d = Some ?cargs"
    by (simp add: create_args_shape [OF typed(1)] targeting_flags_def create_flags_def
        field_string_def field_bool_def fmt_bool_def)
  have r: "read_args ?d' = Some ?rargs"
    by (simp add: read_args_shape [OF typed(2)] targeting_flags_def field_string_def)
  have create: "resourceVClusterCreate (\<lambda>args. (''boom'', Some ''exit status 1'')) ?d =
      Some \<lparr>data = ?d, invoked = [?cargs],
        diags = [\<lparr>Severity = Error, Summary = ''vcluster '' @ Join ?cargs '' '',
          Detail = ''boom''\<rparr>]\<rparr>"
    using failure_leaves_state_unchanged [where d = ?d and cargs = ?cargs
        and run = "\<lambda>args. (''boom'', Some ''exit status 1'')" and out = "''boom''"
        and err = "''exit status 1''"] c
    by simp
  have read: "resourceVClusterRead (\<lambda>args. (''<html>'', None)) (\<lambda>out. Inl ''invalid character'') ?d' =
      Some \<lparr>data = ?d', invoked = [?rargs],
        diags = [\<lparr>Severity = Error, Summary = ''invalid character'', Detail = []\<rparr>]\<rparr>"
    using failure_leaves_state_unchanged [where d = ?d' and rargs = ?rargs
        and run = "\<lambda>args. (''<html>'', None)" and out = "''<html>''"
        and unmarshal = "\<lambda>out. Inl ''invalid character''" and e = "''invalid character''"] r
    by simp
  from create read show ?thesis
    by simp
qed

section \<open>Update\<close>

text \<open>
  C8. Update runs the tool not at all, changes nothing in the record and returns no
  diagnostic, whatever the record holds.
\<close>

theorem update_is_noop:
  "resourceVClusterUpdate run d = Some \<lparr>data = d, invoked = [], diags = []\<rparr>"
  by (simp add: resourceVClusterUpdate_def)

section \<open>The absence sentinel\<close>

text \<open>
  C9. After a successful decode, with an identifier that is not empty, Read clears the
  identifier exactly when no entry has the identifier for its name. The comparison with
  the zero entry can take a found entry for absence only when the identifier is empty
  and the last entry with that name is the zero entry.
\<close>

theorem sentinel_sound_for_non_empty_identifier:
  assumes "config_typed d"
    and "run ([''list'', ''--output'', ''json''] @ targeting_flags d) = (out, None)"
    and "unmarshal out = Inr entries"
  shows "(ident d \<noteq> [] \<longrightarrow>
            (\<exists>r. resourceVClusterRead run unmarshal d = Some r \<and>
                 (ident (data r) = [] \<longleftrightarrow> (\<forall>e \<in> set entries. Name e \<noteq> ident d)))) \<and>
         ((\<exists>e \<in> set entries. Name e = ident d) \<and>
          range_entries (ident d) entries ListEntry_zero = ListEntry_zero \<longrightarrow>
            ident d = [] \<and> last_match (ident d) entries = ListEntry_zero)"
proof (intro conjI impI)
  note decoded = Read_decoded [where d=d and run=run and unmarshal=unmarshal and out=out and entries=entries, OF assms]
  assume id: "ident d \<noteq> []"
  show "\<exists>r. resourceVClusterRead run unmarshal d = Some r \<and>
      (ident (data r) = [] \<longleftrightarrow> (\<forall>e \<in> set entries. Name e \<noteq> ident d))"
  proof (cases "\<exists>e \<in> set entries. Name e = ident d")
    case True
    then have "Name (last_match (ident d) entries) = ident d"
      by (rule last_match_Name)
    with id have "last_match (ident d) entries \<noteq> ListEntry_zero"
      by (auto simp: ListEntry_zero_def)
    with True id show ?thesis
      by (simp add: decoded range_entries_match [OF True] overwritten_def)
  next
    case False
    then have none: "\<forall>e \<in> set entries. Name e \<noteq> ident d"
      by simp
    then show ?thesis
      by (simp add: decoded range_entries_no_match [OF none])
  qed
next
  assume a: "(\<exists>e \<in> set entries. Name e = ident d) \<and>
    range_entries (ident d) entries ListEntry_zero = ListEntry_zero"
  then have m: "\<exists>e \<in> set entries. Name e = ident d"
    by simp
  from a have z: "last_match (ident d) entries = ListEntry_zero"
    by (simp add: range_entries_match [OF m])
  then show "last_match (ident d) entries = ListEntry_zero" .
  from last_match_Name [OF m] z show "ident d = []"
    by (simp add: ListEntry_zero_def)
qed

text \<open>The cluster \<^verbatim>\<open>dev1\<close> once listed, with all other fields zero, and once not listed.\<close>

theorem sentinel_sound_for_non_empty_identifier_witness:
  "ident (data (the (resourceVClusterRead (\<lambda>args. (''[...]'', None))
     (\<lambda>out. Inr [\<lparr>Name = ''dev1'', Namespace = [], Status = [],
                     Created = Time_zero, Context = []\<rparr>])
     \<lparr>ident = ''dev1'', attrs = [''name'' \<mapsto> VString ''dev1'']\<rparr>))) \<noteq> [] \<and>
   ident (data (the (resourceVClusterRead (\<lambda>args. (''[...]'', None))
     (\<lambda>out. Inr [\<lparr>Name = ''dev2'', Namespace = [], Status = [],
                     Created = Time_zero, Context = []\<rparr>])
     \<lparr>ident = ''dev1'', attrs = [''name'' \<mapsto> VString ''dev1'']\<rparr>))) = []"
proof -
  let ?d = "\<lparr>ident = ''dev1'', attrs = [''name'' \<mapsto> VString ''dev1'']\<rparr>"
  let ?run = "\<lambda>args :: string list. (''[...]'', None :: string option)"
  let ?found = "[\<lparr>Name = ''dev1'', Namespace = [], Status = [],
                     Created = Time_zero, Context = []\<rparr>]"
  let ?absent = "[\<lparr>Name = ''dev2'', Namespace = [], Status = [],
                     Created = Time_zero, Context = []\<rparr>]"
  have h1: "config_typed ?d"
    by (simp add: config_typed_def Schema_def typed_at_def)
  have h2: "?run ([''list'', ''--output'', ''json''] @ targeting_flags ?d) = (''[...]'', None)"
    by simp
  have id: "ident ?d \<noteq> []"
    by simp
  have "\<exists>r. resourceVClusterRead ?run (\<lambda>out. Inr ?found) ?d = Some r \<and>
      (ident (data r) = [] \<longleftrightarrow> (\<forall>e \<in> set ?found. Name e \<noteq> ident ?d))"
    using sentinel_sound_for_non_empty_identifier [where d = ?d and run = ?run
        and unmarshal = "\<lambda>out. Inr ?found" and out = "''[...]''" and entries = ?found,
        OF h1 h2] id
    by blast
  then have found: "ident (data (the (resourceVClusterRead ?run (\<lambda>out. Inr ?found) ?d))) \<noteq> []"
    by auto
  have "\<exists>r. resourceVClusterRead ?run (\<lambda>out. Inr ?absent) ?d = Some r \<and>
      (ident (data r) = [] \<longleftrightarrow> (\<forall>e \<in> set ?absent. Name e \<noteq> ident ?d))"
    using sentinel_sound_for_non_empty_identifier [where d = ?d and run = ?run
        and unmarshal = "\<lambda>out. Inr ?absent" and out = "''[...]''" and entries = ?absent,
        OF h1 h2] id
    by blast
  then have absent: "ident (data (the (resourceVClusterRead ?run (\<lambda>out. Inr ?absent) ?d))) = []"
    by auto
  from found absent show ?thesis
    by (rule conjI)
qed

section \<open>Delete\<close>

lemma Get_ident_update: "Get (d\<lparr>ident := i\<rparr>) k = Get d k"
  by (simp add: Get_def split: option.splits)

lemma set_targeting_flags:
  "set (targeting_flags d) \<subseteq>
     {''--namespace'', field_string d ''namespace'', ''--context'', field_string d ''context''}"
  by (auto simp: targeting_flags_def)

text \<open>
  C10. For every record Delete runs the tool with \<^verbatim>\<open>delete <name>\<close> and the targeting
  flags, the name being the \<^verbatim>\<open>name\<close> field of the record, and the vector is the same
  whatever the tracked identifier is. When the identifier differs from the name, from
  the namespace and the context, and from the fixed tokens \<^verbatim>\<open>delete\<close>, \<^verbatim>\<open>--namespace\<close>
  and \<^verbatim>\<open>--context\<close>, it does not occur in the vector.
\<close>

theorem delete_uses_name_field:
  assumes "config_typed d"
  shows "(\<exists>r. resourceVClusterDelete run d = Some r \<and>
              invoked r = [[''delete'', field_string d ''name''] @ targeting_flags d]) \<and>
         delete_args (d\<lparr>ident := i\<rparr>) = delete_args d \<and>
         (ident d \<notin> set ([''delete'', ''--namespace'', ''--context''] @ free_text d) \<longrightarrow>
            ident d \<notin> set ([''delete'', field_string d ''name''] @ targeting_flags d))"
proof (intro conjI impI)
  show "\<exists>r. resourceVClusterDelete run d = Some r \<and>
      invoked r = [[''delete'', field_string d ''name''] @ targeting_flags d]"
    by (cases "run ([''delete'', field_string d ''name''] @ targeting_flags d)")
      (auto simp: resourceVClusterDelete_def delete_args_shape [OF assms(1)]
        split: option.splits)
  show "delete_args (d\<lparr>ident := i\<rparr>) = delete_args d"
    by (simp add: delete_args_def vclusterBaseArgs_def Get_ident_update)
next
  assume "ident d \<notin> set ([''delete'', ''--namespace'', ''--context''] @ free_text d)"
  then show "ident d \<notin> set ([''delete'', field_string d ''name''] @ targeting_flags d)"
    using set_targeting_flags [of d] by (auto simp: free_text_def)
qed

text \<open>
  A record whose identifier differs from its name, and a record as Create leaves it,
  with the identifier equal to the name.
\<close>

theorem delete_uses_name_field_witness:
  "invoked (the (resourceVClusterDelete (\<lambda>args. ([], None))
     \<lparr>ident = ''imported'', attrs = [''name'' \<mapsto> VString ''dev1'',
        ''namespace'' \<mapsto> VString ''team-a'']\<rparr>)) =
     [[''delete'', ''dev1'', ''--namespace'', ''team-a'']] \<and>
   ''imported'' \<notin> set [''delete'', ''dev1'', ''--namespace'', ''team-a''] \<and>
   invoked (the (resourceVClusterDelete (\<lambda>args. ([], None))
     \<lparr>ident = ''dev1'', attrs = [''name'' \<mapsto> VString ''dev1'']\<rparr>)) =
     [[''delete'', ''dev1'']]"
proof -
  let ?d = "\<lparr>ident = ''imported'', attrs = [''name'' \<mapsto> VString ''dev1'',
        ''namespace'' \<mapsto> VString ''team-a'']\<rparr>"
  let ?c = "\<lparr>ident = ''dev1'', attrs = [''name'' \<mapsto> VString ''dev1'']\<rparr>"
  have h1: "config_typed ?d" "config_typed ?c"
    by (simp_all add: config_typed_def Schema_def typed_at_def)
  have h2: "ident ?d \<notin> set ([''delete'', ''--namespace'', ''--context''] @ free_text ?d)"
    by (simp add: free_text_def field_string_def)
  have vec: "[''delete'', field_string ?d ''name''] @ targeting_flags ?d =
      [''delete'', ''dev1'', ''--namespace'', ''team-a'']"
    "[''delete'', field_string ?c ''name''] @ targeting_flags ?c = [''delete'', ''dev1'']"
    by (simp_all add: targeting_flags_def field_string_def)
  from delete_uses_name_field [OF h1(1), where run = "\<lambda>args. ([], None)"] h2
  obtain r where "resourceVClusterDelete (\<lambda>args. ([], None)) ?d = Some r"
    and "invoked r = [[''delete'', ''dev1'', ''--namespace'', ''team-a'']]"
    and "ident ?d \<notin> set [''delete'', ''dev1'', ''--namespace'', ''team-a'']"
    unfolding vec by blast
  moreover from delete_uses_name_field [OF h1(2), where run = "\<lambda>args. ([], None)"]
  obtain r' where "resourceVClusterDelete (\<lambda>args. ([], None)) ?c = Some r'"
    and "invoked r' = [[''delete'', ''dev1'']]"
    unfolding vec by blast
  ultimately show ?thesis
    by simp
qed

text \<open>
  An identifier that is also the namespace: it occurs in the vector, as the value of
  \<^verbatim>\<open>--namespace\<close>.
\<close>

theorem delete_uses_name_field_counterexample:
  "field_string \<lparr>ident = ''team-a'', attrs = [''name'' \<mapsto> VString ''dev1'',
        ''namespace'' \<mapsto> VString ''team-a'']\<rparr> ''name'' \<noteq>
     ident \<lparr>ident = ''team-a'', attrs = [''name'' \<mapsto> VString ''dev1'',
        ''namespace'' \<mapsto> VString ''team-a'']\<rparr> \<and>
   delete_args \<lparr>ident = ''team-a'', attrs = [''name'' \<mapsto> VString ''dev1'',
        ''namespace'' \<mapsto> VString ''team-a'']\<rparr> =
     Some [''delete'', ''dev1'', ''--namespace'', ''team-a''] \<and>
   ident \<lparr>ident = ''team-a'', attrs = [''name'' \<mapsto> VString ''dev1'',
        ''namespace'' \<mapsto> VString ''team-a'']\<rparr> \<in>
     set (the (delete_args \<lparr>ident = ''team-a'', attrs = [''name'' \<mapsto> VString ''dev1'',
        ''namespace'' \<mapsto> VString ''team-a'']\<rparr>))"
proof -
  have "config_typed \<lparr>ident = ''team-a'', attrs = [''name'' \<mapsto> VString ''dev1'',
        ''namespace'' \<mapsto> VString ''team-a'']\<rparr>"
    by (simp add: config_typed_def Schema_def typed_at_def)
  then show ?thesis
    by (simp add: delete_args_shape targeting_flags_def field_string_def)
qed

end
